theory Spec2Isabelle
  imports Main "HOL-Library.Word"
begin

unbundle bit_operations_syntax

section \<open>Values exchanged with the server\<close>

text \<open>
  What \<open>response.json()\<close> hands back: Python's decoded JSON values. A \<open>dict\<close> is an
  association list read with \<open>map_of\<close> (\<open>dict.get\<close>); a \<open>float\<close> is kept as its 64-bit
  pattern. Strings are byte strings: a Python \<open>str\<close> is represented by its UTF-8 encoding,
  so that \<open>str.encode()\<close> is the identity on the representation.
\<close>

datatype json =
    JNull
  | JBool bool
  | JInt int
  | JFloat "64 word"
  | JString string
  | JArray "json list"
  | JObject "(string \<times> json) list"

subsection \<open>Python's \<open>str\<close> of an integer\<close>

fun digits :: "nat \<Rightarrow> string" where
  "digits n =
     (if n < 10 then [char_of (48 + n)]
      else digits (n div 10) @ [char_of (48 + n mod 10)])"

declare digits.simps [simp del]

definition str_int :: "int \<Rightarrow> string" where
  "str_int i = (if i < 0 then CHR ''-'' # digits (nat (- i)) else digits (nat i))"

subsection \<open>Response bodies and the JSON decoder\<close>

text \<open>
  The body of a response, as the decoder behind \<open>response.json()\<close> sees it: a well-formed
  JSON document, given by the value it denotes; a well-formed document nested deeper than
  the interpreter lets the decoder recurse (its recursion limit, 1000 frames by default,
  less those in use), with the text of the \<open>RecursionError\<close>; or a text that is not JSON,
  with the text of the \<open>JSONDecodeError\<close>.
\<close>

datatype body =
    Document json
  | Deep string
  | Malformed string

fun well_formed :: "body \<Rightarrow> bool" where
  "well_formed (Document v) = True"
| "well_formed (Deep t) = True"
| "well_formed (Malformed t) = False"

text \<open>
  The decoder turns an integer literal into an \<open>int\<close>, and CPython refuses a literal of
  more than \<open>sys.get_int_max_str_digits()\<close> digits, 4300 by default, the sign not
  counted, with a \<open>ValueError\<close>. \<open>long_ints\<close> lists the integers of a document that are
  beyond the limit, in the order of the text; the decoder stops at the first.
\<close>

definition int_digits :: "int \<Rightarrow> nat" where
  "int_digits n = length (digits (nat \<bar>n\<bar>))"

fun long_ints :: "json \<Rightarrow> int list" where
  "long_ints (JInt n) = (if 4300 < int_digits n then [n] else [])"
| "long_ints (JArray xs) = concat (map long_ints xs)"
| "long_ints (JObject kvs) = concat (map (\<lambda>(k, v). long_ints v) kvs)"
| "long_ints _ = []"

definition digit_limit_msg :: "int \<Rightarrow> string" where
  "digit_limit_msg n =
     ''Exceeds the limit (4300 digits) for integer string conversion: value has '' @
     str_int (int (int_digits n)) @
     '' digits; use sys.set_int_max_str_digits() to increase the limit''"

text \<open>
  A \<open>requests.Response\<close>, as far as the client reads it: the status code, the reason
  phrase and the URL (both only appear in the text of the \<open>HTTPError\<close>), and the body.
\<close>

record response =
  status_code :: int
  reason :: string
  url :: string
  content :: body

section \<open>exceptions.py\<close>

text \<open>
  The package's exception classes. \<open>OpenListAPIError\<close> is the base class, raised itself
  for "other" API errors; the six others derive from it and add nothing.
\<close>

datatype kind =
    OpenListAPIError
  | AuthenticationError
  | AuthorizationError
  | NotFoundError
  | ValidationError
  | NetworkError
  | ServerError

text \<open>
  An instance of one of these classes: \<open>__init__(message, status_code=None, response=None)\<close>.
  The message is whatever object the raiser passes; the client passes a \<open>str\<close> or a value
  taken out of a decoded body.
\<close>

record failure =
  kind :: kind
  message :: json
  failure_status_code :: "int option"
  failure_response :: "response option"

text \<open>
  The classes of \<open>requests.exceptions\<close> that the client's \<open>except\<close> clauses tell apart.
  \<open>ConnectTimeout\<close> derives from both \<open>ConnectionError\<close> and \<open>Timeout\<close>; \<open>SSLError\<close> and
  \<open>ProxyError\<close> derive from \<open>ConnectionError\<close>; \<open>ReadTimeout\<close> from \<open>Timeout\<close>;
  \<open>JSONDecodeError\<close> (what \<open>Response.json\<close> raises for a text that is not JSON, requests
  2.27 and later) derives from
  \<open>InvalidJSONError\<close>, itself a \<open>RequestException\<close>. \<open>RequestException\<close> stands for the base
  class and for its remaining subclasses (\<open>TooManyRedirects\<close>, \<open>InvalidURL\<close>, ...).
\<close>

datatype requests_exception =
    RequestException
  | Timeout
  | ConnectTimeout
  | ReadTimeout
  | ConnectionError
  | SSLError
  | ProxyError
  | HTTPError
  | JSONDecodeError

text \<open>
  A raised Python exception: one of the requests library with its text \<open>str(e)\<close>, one of
  the package's own, or any other, with the name of its class (\<open>ValueError\<close>,
  \<open>RecursionError\<close>, ...) and its text.
\<close>

datatype exn =
    Requests requests_exception string
  | Api failure
  | Other string string

fun is_Timeout :: "exn \<Rightarrow> bool" where
  "is_Timeout (Requests c _) = (c = Timeout \<or> c = ConnectTimeout \<or> c = ReadTimeout)"
| "is_Timeout _ = False"

fun is_ConnectionError :: "exn \<Rightarrow> bool" where
  "is_ConnectionError (Requests c _) =
     (c = ConnectionError \<or> c = ConnectTimeout \<or> c = SSLError \<or> c = ProxyError)"
| "is_ConnectionError _ = False"

fun is_HTTPError :: "exn \<Rightarrow> bool" where
  "is_HTTPError (Requests c _) = (c = HTTPError)"
| "is_HTTPError _ = False"

fun is_RequestException :: "exn \<Rightarrow> bool" where
  "is_RequestException (Requests _ _) = True"
| "is_RequestException _ = False"

text \<open>\<open>str(e)\<close> of a requests exception: the text it was raised with.\<close>

fun str_exn :: "exn \<Rightarrow> string" where
  "str_exn (Requests _ msg) = msg"
| "str_exn (Other c msg) = msg"
| "str_exn (Api f) = (case message f of JString s \<Rightarrow> s | _ \<Rightarrow> [])"

section \<open>client.py\<close>

text \<open>
  \<open>BaseClient\<close>: the base URL, the timeout and the token. The \<open>requests.Session\<close> it holds is
  the transport: a function from the call issued to what \<open>session.request\<close> does with it,
  returning a response or raising.
\<close>

record client =
  base_url :: string
  timeout :: int
  token :: "string option"

text \<open>
  The keyword arguments a caller may pass on to \<open>session.request\<close>. \<open>None\<close> is an absent
  key. \<open>kw_headers\<close> is popped by the client, the others are forwarded as they are.
\<close>

record kwargs =
  kw_headers :: "(string \<rightharpoonup> string) option"
  kw_params :: "(string \<rightharpoonup> string) option"
  kw_json :: "json option"
  kw_data :: "string option"
  kw_files :: "(string \<rightharpoonup> string) option"

text \<open>The arguments of one \<open>session.request\<close> call.\<close>

record call =
  call_method :: string
  call_url :: string
  call_headers :: "string \<rightharpoonup> string"
  call_timeout :: int
  call_kwargs :: kwargs

type_synonym session = "call \<Rightarrow> exn + response"

text \<open>\<open>str.rstrip(chars)\<close>: drop the trailing characters that occur in \<open>chars\<close>.\<close>

definition rstrip :: "string \<Rightarrow> string \<Rightarrow> string" where
  "rstrip chars s = rev (dropWhile (\<lambda>x. x \<in> set chars) (rev s))"

definition BaseClient :: "string \<Rightarrow> int \<Rightarrow> string option \<Rightarrow> client" where
  "BaseClient b t tok = \<lparr>base_url = rstrip ''/'' b, timeout = t, token = tok\<rparr>"

definition set_token :: "client \<Rightarrow> string \<Rightarrow> client" where
  "set_token self tok = self\<lparr>token := Some tok\<rparr>"

text \<open>
  \<open>_get_headers\<close>. The test \<open>if self.token\<close> is Python's truth value: \<open>None\<close> and the
  empty string are both false.
\<close>

definition get_headers :: "client \<Rightarrow> (string \<rightharpoonup> string)" where
  "get_headers self =
     (let headers = [''Content-Type'' \<mapsto> ''application/json'']
      in case token self of
           None \<Rightarrow> headers
         | Some t \<Rightarrow> if t \<noteq> [] then headers(''Authorization'' \<mapsto> t) else headers)"

text \<open>
  \<open>Response.raise_for_status\<close> of the requests library: it raises an \<open>HTTPError\<close> for a
  status code from 400 to 599, with the text \<open>http_error_msg\<close>, and returns otherwise
  (the text is then empty). \<open>None\<close> is the normal return.
\<close>

definition http_error_msg :: "response \<Rightarrow> string" where
  "http_error_msg r =
     (if 400 \<le> status_code r \<and> status_code r < 500
      then str_int (status_code r) @ '' Client Error: '' @ reason r @ '' for url: '' @ url r
      else if 500 \<le> status_code r \<and> status_code r < 600
      then str_int (status_code r) @ '' Server Error: '' @ reason r @ '' for url: '' @ url r
      else [])"

definition raise_for_status :: "response \<Rightarrow> exn option" where
  "raise_for_status r =
     (if http_error_msg r \<noteq> [] then Some (Requests HTTPError (http_error_msg r)) else None)"

text \<open>
  \<open>response.json()\<close>. It returns the value of a document the decoder accepts. It wraps the
  decoder's \<open>JSONDecodeError\<close> into its own; the decoder's other exceptions, the
  \<open>ValueError\<close> of the digit limit and the \<open>RecursionError\<close>, leave it as they are.
\<close>

definition response_json :: "response \<Rightarrow> exn + json" where
  "response_json r =
     (case content r of
        Document v \<Rightarrow>
          (case long_ints v of
             [] \<Rightarrow> Inr v
           | n # _ \<Rightarrow> Inl (Other ''ValueError'' (digit_limit_msg n)))
      | Deep t \<Rightarrow> Inl (Other ''RecursionError'' t)
      | Malformed t \<Rightarrow> Inl (Requests JSONDecodeError t))"

definition raise_api :: "kind \<Rightarrow> json \<Rightarrow> int option \<Rightarrow> response option \<Rightarrow> exn + json" where
  "raise_api k m sc r =
     Inl (Api \<lparr>kind = k, message = m, failure_status_code = sc, failure_response = r\<rparr>)"

text \<open>
  The message of the failure (the inner \<open>try\<close> of \<open>_handle_response\<close>): the \<open>message\<close> entry
  of the decoded body, \<open>str(e)\<close> when the key is absent; the bare \<open>except\<close> gives \<open>str(e)\<close>
  too when \<open>response.json()\<close> raises, whatever it raises, or returns something without a
  \<open>get\<close> method.
\<close>

definition error_message :: "response \<Rightarrow> exn \<Rightarrow> json" where
  "error_message r e =
     (case response_json r of
        Inr (JObject error_data) \<Rightarrow>
          (case map_of error_data ''message'' of
             Some m \<Rightarrow> m
           | None \<Rightarrow> JString (str_exn e))
      | _ \<Rightarrow> JString (str_exn e))"

definition handle_response :: "response \<Rightarrow> exn + json" where
  "handle_response r =
     (case (case raise_for_status r of
              Some e \<Rightarrow> Inl e
            | None \<Rightarrow> response_json r) of
        Inr v \<Rightarrow> Inr v
      | Inl e \<Rightarrow>
          if is_HTTPError e then
            (let sc = status_code r; msg = error_message r e
             in if sc = 401 then raise_api AuthenticationError msg (Some sc) (Some r)
                else if sc = 403 then raise_api AuthorizationError msg (Some sc) (Some r)
                else if sc = 404 then raise_api NotFoundError msg (Some sc) (Some r)
                else if sc = 400 then raise_api ValidationError msg (Some sc) (Some r)
                else if sc \<ge> 500 then raise_api ServerError msg (Some sc) (Some r)
                else raise_api OpenListAPIError msg (Some sc) (Some r))
          else Inl e)"

text \<open>
  The prefixes of the \<open>NetworkError\<close> messages, Chinese text given by its UTF-8 bytes:
  "request timed out: ", "connection failed: ", "network error: ".
\<close>

definition msg_timeout :: string where
  "msg_timeout = map char_of
     [232, 175, 183, 230, 177, 130, 232, 182, 133, 230, 151, 182, 58, 32 :: nat]"

definition msg_connection :: string where
  "msg_connection = map char_of
     [232, 191, 158, 230, 142, 165, 229, 164, 177, 232, 180, 165, 58, 32 :: nat]"

definition msg_network :: string where
  "msg_network = map char_of
     [231, 189, 145, 231, 187, 156, 233, 148, 153, 232, 175, 175, 58, 32 :: nat]"

text \<open>
  The first half of \<open>_request\<close>: the URL, the headers (the client's, updated with the
  caller's when the \<open>headers\<close> key is present, which is popped) and the call handed to
  \<open>session.request\<close>.
\<close>

definition build_call :: "client \<Rightarrow> string \<Rightarrow> string \<Rightarrow> kwargs \<Rightarrow> call" where
  "build_call self method endpoint kw =
     (let u = base_url self @ endpoint;
          headers = (case kw_headers kw of
                       None \<Rightarrow> get_headers self
                     | Some h \<Rightarrow> get_headers self ++ h)
      in \<lparr>call_method = method, call_url = u, call_headers = headers,
          call_timeout = timeout self, call_kwargs = kw\<lparr>kw_headers := None\<rparr>\<rparr>)"

text \<open>
  The second half of \<open>_request\<close>, as a function of what \<open>session.request\<close> did: the
  \<open>try\<close> block hands a response to \<open>_handle_response\<close>, and the three \<open>except\<close>
  clauses follow in their order. An exception none of them matches passes through.
\<close>

definition receive :: "exn + response \<Rightarrow> exn + json" where
  "receive sent =
     (case (case sent of
              Inl e \<Rightarrow> Inl e
            | Inr r \<Rightarrow> handle_response r) of
        Inr v \<Rightarrow> Inr v
      | Inl e \<Rightarrow>
          if is_Timeout e
            then raise_api NetworkError (JString (msg_timeout @ str_exn e)) None None
          else if is_ConnectionError e
            then raise_api NetworkError (JString (msg_connection @ str_exn e)) None None
          else if is_RequestException e
            then raise_api NetworkError (JString (msg_network @ str_exn e)) None None
          else Inl e)"

definition request :: "session \<Rightarrow> client \<Rightarrow> string \<Rightarrow> string \<Rightarrow> kwargs \<Rightarrow> exn + json" where
  "request send self method endpoint kw = receive (send (build_call self method endpoint kw))"

definition get :: "session \<Rightarrow> client \<Rightarrow> string \<Rightarrow> kwargs \<Rightarrow> exn + json" where
  "get send self endpoint kw = request send self ''GET'' endpoint kw"

definition post :: "session \<Rightarrow> client \<Rightarrow> string \<Rightarrow> kwargs \<Rightarrow> exn + json" where
  "post send self endpoint kw = request send self ''POST'' endpoint kw"

definition put :: "session \<Rightarrow> client \<Rightarrow> string \<Rightarrow> kwargs \<Rightarrow> exn + json" where
  "put send self endpoint kw = request send self ''PUT'' endpoint kw"

definition delete :: "session \<Rightarrow> client \<Rightarrow> string \<Rightarrow> kwargs \<Rightarrow> exn + json" where
  "delete send self endpoint kw = request send self ''DELETE'' endpoint kw"

section \<open>Library functions the wrappers call\<close>

subsection \<open>\<open>urllib.parse.quote\<close>\<close>

text \<open>
  \<open>quote(string, safe)\<close> of CPython 3.7 and later. The string is encoded as UTF-8 (here
  the identity) and handed to \<open>quote_from_bytes\<close>: the characters of \<open>safe\<close> outside ASCII
  are ignored, a byte string made of safe bytes only is returned as it is, and otherwise
  each byte goes through the \<open>_Quoter\<close>: itself when it is in \<open>_ALWAYS_SAFE\<close> or in \<open>safe\<close>,
  and \<open>'%{:02X}'.format(b)\<close> when it is not.
\<close>

definition ALWAYS_SAFE :: string where
  "ALWAYS_SAFE = ''ABCDEFGHIJKLMNOPQRSTUVWXYZabcdefghijklmnopqrstuvwxyz0123456789_.-~''"

definition hex_upper :: "nat \<Rightarrow> char" where
  "hex_upper n = ''0123456789ABCDEF'' ! n"

definition quoter :: "string \<Rightarrow> char \<Rightarrow> string" where
  "quoter safe b =
     (if b \<in> set (ALWAYS_SAFE @ safe) then [b]
      else [CHR ''%'', hex_upper (of_char b div 16), hex_upper (of_char b mod 16)])"

definition ascii_only :: "string \<Rightarrow> string" where
  "ascii_only safe = filter (\<lambda>c. (of_char c :: nat) < 128) safe"

definition quote_from_bytes :: "string \<Rightarrow> string \<Rightarrow> string" where
  "quote_from_bytes bs safe =
     (if bs = [] then []
      else if rstrip (ALWAYS_SAFE @ ascii_only safe) bs = [] then bs
      else concat (map (quoter (ascii_only safe)) bs))"

definition quote :: "string \<Rightarrow> string \<Rightarrow> string" where
  "quote string safe = (if string = [] then string else quote_from_bytes string safe)"

text \<open>
  Percent-encoding as RFC 3986 words it, for comparison with \<open>quote\<close>: the unreserved
  characters are the letters, the digits and \<open>- . _ ~\<close>; every other byte becomes \<open>%\<close>
  followed by its two hexadecimal digits.
\<close>

definition unreserved :: "char \<Rightarrow> bool" where
  "unreserved c =
     ((65 \<le> (of_char c :: nat) \<and> (of_char c :: nat) \<le> 90) \<or>
      (97 \<le> (of_char c :: nat) \<and> (of_char c :: nat) \<le> 122) \<or>
      (48 \<le> (of_char c :: nat) \<and> (of_char c :: nat) \<le> 57) \<or>
      c = CHR ''-'' \<or> c = CHR ''.'' \<or> c = CHR ''_'' \<or> c = CHR ''~'')"

definition percent_encode :: "string \<Rightarrow> string" where
  "percent_encode s =
     concat (map (\<lambda>c. if unreserved c then [c]
                       else [CHR ''%'', hex_upper (of_char c div 16), hex_upper (of_char c mod 16)]) s)"

subsection \<open>\<open>str(bool)\<close> and \<open>str.lower\<close>\<close>

definition str_bool :: "bool \<Rightarrow> string" where
  "str_bool b = (if b then ''True'' else ''False'')"

text \<open>\<open>str.lower\<close> on ASCII text, which is all it is applied to.\<close>

definition lower :: "string \<Rightarrow> string" where
  "lower s =
     map (\<lambda>c. if 65 \<le> (of_char c :: nat) \<and> (of_char c :: nat) \<le> 90
              then char_of ((of_char c :: nat) + 32) else c) s"

subsection \<open>\<open>hashlib.sha256\<close>\<close>

text \<open>
  SHA-256 as FIPS 180-4 defines it, on 32-bit words: the message is padded to a multiple of
  64 bytes, cut into blocks, and each block updates the eight-word state through the
  message schedule and 64 rounds. The round constants \<open>sha_K\<close> and the initial state
  \<open>sha_H0\<close> are written in decimal (\<open>sha_K\<close> starts with 0x428a2f98, \<open>sha_H0\<close> with
  0x6a09e667). \<open>sha256\<close> is \<open>hashlib.sha256(m).digest()\<close> and
  \<open>hexdigest\<close> renders a digest in lower-case hexadecimal, two digits a byte.
\<close>

type_synonym u32 = "32 word"

definition sha_K :: "u32 list" where
  "sha_K =
    [1116352408, 1899447441, 3049323471, 3921009573,
     961987163, 1508970993, 2453635748, 2870763221,
     3624381080, 310598401, 607225278, 1426881987,
     1925078388, 2162078206, 2614888103, 3248222580,
     3835390401, 4022224774, 264347078, 604807628,
     770255983, 1249150122, 1555081692, 1996064986,
     2554220882, 2821834349, 2952996808, 3210313671,
     3336571891, 3584528711, 113926993, 338241895,
     666307205, 773529912, 1294757372, 1396182291,
     1695183700, 1986661051, 2177026350, 2456956037,
     2730485921, 2820302411, 3259730800, 3345764771,
     3516065817, 3600352804, 4094571909, 275423344,
     430227734, 506948616, 659060556, 883997877,
     958139571, 1322822218, 1537002063, 1747873779,
     1955562222, 2024104815, 2227730452, 2361852424,
     2428436474, 2756734187, 3204031479, 3329325298]"

definition sha_H0 :: "u32 list" where
  "sha_H0 =
    [1779033703, 3144134277, 1013904242, 2773480762,
     1359893119, 2600822924, 528734635, 1541459225]"

definition rotr :: "nat \<Rightarrow> u32 \<Rightarrow> u32" where
  "rotr n x = drop_bit n x OR push_bit (32 - n) x"

definition Ch :: "u32 \<Rightarrow> u32 \<Rightarrow> u32 \<Rightarrow> u32" where
  "Ch x y z = (x AND y) XOR (NOT x AND z)"

definition Maj :: "u32 \<Rightarrow> u32 \<Rightarrow> u32 \<Rightarrow> u32" where
  "Maj x y z = (x AND y) XOR (x AND z) XOR (y AND z)"

definition Sigma0 :: "u32 \<Rightarrow> u32" where
  "Sigma0 x = rotr 2 x XOR rotr 13 x XOR rotr 22 x"

definition Sigma1 :: "u32 \<Rightarrow> u32" where
  "Sigma1 x = rotr 6 x XOR rotr 11 x XOR rotr 25 x"

definition sigma0 :: "u32 \<Rightarrow> u32" where
  "sigma0 x = rotr 7 x XOR rotr 18 x XOR drop_bit 3 x"

definition sigma1 :: "u32 \<Rightarrow> u32" where
  "sigma1 x = rotr 17 x XOR rotr 19 x XOR drop_bit 10 x"

text \<open>
  Padding: the byte 0x80, zero bytes up to 56 modulo 64, and the length of the message in
  bits as eight big-endian bytes. Bytes are kept in 32-bit words until \<open>be_words\<close> packs
  four of them into one. \<open>expand\<close> extends the sixteen words of a block to the schedule,
  sliding a window of sixteen words; a state is always a list of eight words, the only
  case in which \<open>sha_round\<close> does something.
\<close>

definition sha_pad :: "string \<Rightarrow> u32 list" where
  "sha_pad m =
     map of_char m @ [0x80] @ replicate ((119 - length m mod 64) mod 64) 0 @
     map (\<lambda>i. of_nat ((8 * length m) div 2 ^ (8 * (7 - i)) mod 256)) [0..<8]"

fun be_words :: "u32 list \<Rightarrow> u32 list" where
  "be_words (a # b # c # d # xs) =
     (push_bit 24 a OR push_bit 16 b OR push_bit 8 c OR d) # be_words xs"
| "be_words _ = []"

definition next_w :: "u32 list \<Rightarrow> u32" where
  "next_w ws = sigma1 (ws ! 14) + ws ! 9 + sigma0 (ws ! 1) + ws ! 0"

fun expand :: "nat \<Rightarrow> u32 list \<Rightarrow> u32 list" where
  "expand 0 ws = []"
| "expand (Suc n) ws = next_w ws # expand n (tl ws @ [next_w ws])"

fun sha_round :: "u32 \<times> u32 \<Rightarrow> u32 list \<Rightarrow> u32 list" where
  "sha_round (k, w) [a, b, c, d, e, f, g, h] =
     (let t1 = h + Sigma1 e + Ch e f g + k + w;
          t2 = Sigma0 a + Maj a b c
      in [t1 + t2, a, b, c, d + t1, e, f, g])"
| "sha_round _ s = s"

fun rounds :: "(u32 \<times> u32) list \<Rightarrow> u32 list \<Rightarrow> u32 list" where
  "rounds [] s = s"
| "rounds (kw # kws) s = rounds kws (sha_round kw s)"

definition schedule :: "u32 list \<Rightarrow> u32 list" where
  "schedule block = be_words block @ expand 48 (be_words block)"

definition compress :: "u32 list \<Rightarrow> u32 list \<Rightarrow> u32 list" where
  "compress block hs = map2 (+) hs (rounds (zip sha_K (schedule block)) hs)"

definition blocks :: "u32 list \<Rightarrow> u32 list list" where
  "blocks xs = map (\<lambda>i. take 64 (drop (64 * i) xs)) [0..<length xs div 64]"

definition be_bytes :: "u32 \<Rightarrow> string" where
  "be_bytes w = map (\<lambda>i. char_of (unat (drop_bit (8 * (3 - i)) w))) [0..<4]"

definition sha256 :: "string \<Rightarrow> string" where
  "sha256 m = concat (map be_bytes (fold compress (blocks (sha_pad m)) sha_H0))"

definition hex_lower :: "nat \<Rightarrow> char" where
  "hex_lower n = ''0123456789abcdef'' ! n"

definition hexdigest :: "string \<Rightarrow> string" where
  "hexdigest d = concat (map (\<lambda>c. [hex_lower (of_char c div 16), hex_lower (of_char c mod 16)]) d)"

section \<open>fs.py: the two uploads\<close>

text \<open>
  \<open>FileSystemAPI.form_upload\<close> and \<open>stream_upload\<close>. The API object only holds the client,
  which is passed here. The file is its content. \<open>UploadResponse\<close>, the pydantic model
  built from the decoded body, is a parameter: it returns the typed record or raises.
\<close>

definition no_kwargs :: kwargs where
  "no_kwargs = \<lparr>kw_headers = None, kw_params = None, kw_json = None, kw_data = None,
                 kw_files = None\<rparr>"

definition form_upload ::
  "session \<Rightarrow> (json \<Rightarrow> exn + 'r) \<Rightarrow> client \<Rightarrow> string \<Rightarrow> string \<Rightarrow> bool \<Rightarrow> exn + 'r" where
  "form_upload send UploadResponse self file_path file as_task =
     (let headers = [''File-Path'' \<mapsto> quote file_path [],
                     ''As-Task'' \<mapsto> lower (str_bool as_task)];
          files = [''file'' \<mapsto> file]
      in case put send self ''/api/fs/form''
                (no_kwargs\<lparr>kw_files := Some files, kw_headers := Some headers\<rparr>) of
           Inl e \<Rightarrow> Inl e
         | Inr response_data \<Rightarrow> UploadResponse response_data)"

definition stream_upload ::
  "session \<Rightarrow> (json \<Rightarrow> exn + 'r) \<Rightarrow> client \<Rightarrow> string \<Rightarrow> string \<Rightarrow> bool \<Rightarrow> exn + 'r" where
  "stream_upload send UploadResponse self file_path file_data as_task =
     (let headers = [''File-Path'' \<mapsto> quote file_path [],
                     ''As-Task'' \<mapsto> lower (str_bool as_task),
                     ''Content-Type'' \<mapsto> ''application/octet-stream'']
      in case put send self ''/api/fs/put''
                (no_kwargs\<lparr>kw_data := Some file_data, kw_headers := Some headers\<rparr>) of
           Inl e \<Rightarrow> Inl e
         | Inr response_data \<Rightarrow> UploadResponse response_data)"

section \<open>auth.py: \<open>login_hash\<close>\<close>

text \<open>
  \<open>AuthAPI.login_hash\<close>. The payload is the \<open>json\<close> keyword argument of the POST; the
  one-time code is added when it is given and not empty. \<open>LoginResponse\<close> is a parameter
  like \<open>UploadResponse\<close> above.
\<close>

definition login_hash ::
  "session \<Rightarrow> (json \<Rightarrow> exn + 'r) \<Rightarrow> client \<Rightarrow> string \<Rightarrow> string \<Rightarrow> string option \<Rightarrow> exn + 'r" where
  "login_hash send LoginResponse self username password otp_code =
     (let password_with_suffix = password @ ''-https://github.com/alist-org/alist'';
          hashed_password = hexdigest (sha256 password_with_suffix);
          payload = [(''username'', JString username), (''password'', JString hashed_password)];
          payload' = (case otp_code of
                        None \<Rightarrow> payload
                      | Some c \<Rightarrow> if c \<noteq> [] then payload @ [(''otp_code'', JString c)]
                                  else payload)
      in case post send self ''/api/auth/login/hash''
                (no_kwargs\<lparr>kw_json := Some (JObject payload')\<rparr>) of
           Inl e \<Rightarrow> Inl e
         | Inr response_data \<Rightarrow> LoginResponse response_data)"

section \<open>Transports and values for the examples\<close>

text \<open>A transport that answers every call with one response, and one that always raises.\<close>

definition answering :: "response \<Rightarrow> session" where
  "answering r c = Inr r"


definition client0 :: client where
  "client0 = BaseClient ''http://host:5244/'' 30 None"

definition r200 :: response where
  "r200 = \<lparr>status_code = 200, reason = ''OK'', url = ''http://host:5244/api/me'',
            content = Document (JObject [(''code'', JInt 200), (''message'', JString ''success''),
                                 (''data'', JObject [(''id'', JInt 1)])])\<rparr>"

definition r200_bad :: response where
  "r200_bad = \<lparr>status_code = 200, reason = ''OK'', url = ''http://host:5244/api/me'',
                content = Malformed ''Expecting value: line 1 column 1 (char 0)''\<rparr>"

text \<open>
  Two 200 responses with well-formed bodies the decoder refuses: the integer
  \<open>10 ^ 4300\<close>, a one followed by 4300 zeros, and 2000 nested arrays.
\<close>

definition big_int :: int where
  "big_int = 10 ^ 4300"

definition r200_big_int :: response where
  "r200_big_int = \<lparr>status_code = 200, reason = ''OK'', url = ''http://host:5244/api/me'',
                    content = Document (JObject [(''code'', JInt 200), (''data'', JInt big_int)])\<rparr>"

definition r200_deep :: response where
  "r200_deep = \<lparr>status_code = 200, reason = ''OK'', url = ''http://host:5244/api/me'',
                 content = Deep (''maximum recursion depth exceeded while decoding '' @
                                 ''a JSON array from a unicode string'')\<rparr>"

definition r300 :: response where
  "r300 = \<lparr>status_code = 300, reason = ''Multiple Choices'', url = ''http://host:5244/api/me'',
            content = Document (JObject [(''code'', JInt 300)])\<rparr>"

definition r304 :: response where
  "r304 = \<lparr>status_code = 304, reason = ''Not Modified'', url = ''http://host:5244/api/me'',
            content = Malformed ''Expecting value: line 1 column 1 (char 0)''\<rparr>"

definition r404 :: response where
  "r404 = \<lparr>status_code = 404, reason = ''Not Found'', url = ''http://host:5244/api/me'',
            content = Document (JObject [(''code'', JInt 404),
                                 (''message'', JString ''object not found'')])\<rparr>"

definition r409 :: response where
  "r409 = \<lparr>status_code = 409, reason = ''Conflict'', url = ''http://host:5244/api/me'',
            content = Document (JArray [])\<rparr>"

definition r502 :: response where
  "r502 = \<lparr>status_code = 502, reason = ''Bad Gateway'', url = ''http://host:5244/api/me'',
            content = Malformed ''Expecting value: line 1 column 1 (char 0)''\<rparr>"

text \<open>
  Two mock servers that answer 200 and echo what they received: the two upload headers,
  and the \<open>username\<close> and \<open>password\<close> entries of a JSON payload.
\<close>

definition echo_upload_headers :: session where
  "echo_upload_headers c =
     Inr \<lparr>status_code = 200, reason = ''OK'', url = call_url c,
          content = Document (JObject (map (\<lambda>k. (k, case call_headers c k of
                                                 None \<Rightarrow> JNull
                                               | Some v \<Rightarrow> JString v))
                                [''File-Path'', ''As-Task'']))\<rparr>"

definition echo_login_payload :: session where
  "echo_login_payload c =
     Inr \<lparr>status_code = 200, reason = ''OK'', url = call_url c,
          content =
            Document (case kw_json (call_kwargs c) of
                        Some (JObject d) \<Rightarrow>
                          JObject (map (\<lambda>k. (k, case map_of d k of
                                                    Some (JString t) \<Rightarrow> JString t
                                                  | _ \<Rightarrow> JNull))
                                       [''username'', ''password''])
                      | _ \<Rightarrow> JNull)\<rparr>"

text \<open>The text hashed by \<open>login_hash\<close> for the password \<open>password123\<close>.\<close>

definition sample_message :: string where
  "sample_message = ''password123-https://github.com/alist-org/alist''"

text \<open>
  The five entry points of the client on one transport, each paired with the HTTP method
  it issues: \<open>_request\<close> with the caller's method, and the four wrappers.
\<close>

definition entry_points ::
  "session \<Rightarrow> client \<Rightarrow> string \<Rightarrow> (string \<times> (string \<Rightarrow> kwargs \<Rightarrow> exn + json)) set" where
  "entry_points send self method =
     {(method, request send self method),
      (''GET'', get send self),
      (''POST'', post send self),
      (''PUT'', put send self),
      (''DELETE'', delete send self)}"

section \<open>The status-code classification\<close>

lemma entry_points_request:
  "(m, f) \<in> entry_points send self method \<Longrightarrow> f = request send self m"
  by (auto simp: entry_points_def get_def post_def put_def delete_def fun_eq_iff)

lemma http_error_msg_nonempty:
  "400 \<le> status_code r \<Longrightarrow> status_code r < 600 \<Longrightarrow> http_error_msg r \<noteq> []"
  by (simp add: http_error_msg_def)

lemma http_error_msg_empty:
  "status_code r < 400 \<or> 600 \<le> status_code r \<Longrightarrow> http_error_msg r = []"
  by (auto simp: http_error_msg_def)

lemma handle_response_error:
  assumes "400 \<le> status_code r" "status_code r < 600"
  shows "handle_response r =
    Inl (Api \<lparr>kind = (if status_code r = 401 then AuthenticationError
                      else if status_code r = 403 then AuthorizationError
                      else if status_code r = 404 then NotFoundError
                      else if status_code r = 400 then ValidationError
                      else if status_code r \<ge> 500 then ServerError
                      else OpenListAPIError),
              message = error_message r (Requests HTTPError (http_error_msg r)),
              failure_status_code = Some (status_code r),
              failure_response = Some r\<rparr>)"
  using http_error_msg_nonempty[OF assms]
  by (simp add: handle_response_def raise_for_status_def raise_api_def Let_def)

lemma response_json_not_HTTPError: "response_json r = Inl e \<Longrightarrow> \<not> is_HTTPError e"
  by (auto simp: response_json_def split: body.splits list.splits)

lemma handle_response_success:
  assumes "status_code r < 400 \<or> 600 \<le> status_code r"
  shows "handle_response r = response_json r"
proof (cases "response_json r")
  case (Inl e)
  then show ?thesis
    using http_error_msg_empty[OF assms] response_json_not_HTTPError[OF Inl]
    by (simp add: handle_response_def raise_for_status_def)
next
  case (Inr v)
  then show ?thesis
    using http_error_msg_empty[OF assms]
    by (simp add: handle_response_def raise_for_status_def)
qed

lemma receive_error:
  assumes "400 \<le> status_code r" "status_code r < 600"
  shows "receive (Inr r) = handle_response r"
  by (simp add: receive_def handle_response_error[OF assms])

lemma receive_success:
  assumes "status_code r < 400 \<or> 600 \<le> status_code r"
  shows "receive (Inr r) =
     (case content r of
        Document v \<Rightarrow>
          (case long_ints v of
             [] \<Rightarrow> Inr v
           | n # _ \<Rightarrow> Inl (Other ''ValueError'' (digit_limit_msg n)))
      | Deep t \<Rightarrow> Inl (Other ''RecursionError'' t)
      | Malformed t \<Rightarrow>
          Inl (Api \<lparr>kind = NetworkError, message = JString (msg_network @ t),
                    failure_status_code = None, failure_response = None\<rparr>))"
  by (simp add: receive_def handle_response_success[OF assms] response_json_def raise_api_def
      split: body.splits list.splits)


lemma length_digits_le: "length (digits n) \<le> Suc n"
proof (induction n rule: digits.induct)
  case (1 n)
  show ?case
  proof (cases "n < 10")
    case True
    then show ?thesis by (subst digits.simps) simp
  next
    case False
    then have "length (digits n) = Suc (length (digits (n div 10)))"
      by (subst digits.simps) simp
    then show ?thesis using 1[OF False] False by simp
  qed
qed

lemma int_digits_small: "\<bar>n\<bar> < 4300 \<Longrightarrow> (4300 < int_digits n) = False"
  using length_digits_le[of "nat \<bar>n\<bar>"] by (simp add: int_digits_def)

lemma length_digits_power: "length (digits (10 ^ k)) = Suc k"
proof (induction k)
  case 0
  show ?case by (subst digits.simps) simp
next
  case (Suc k)
  have "\<not> (10::nat) ^ Suc k < 10" by simp
  then have "digits (10 ^ Suc k) = digits (10 ^ k) @ [char_of (48 + (10::nat) ^ Suc k mod 10)]"
    by (subst digits.simps) simp
  then show ?case using Suc by simp
qed

lemma nat_abs_power: "nat \<bar>(10::int) ^ k\<bar> = 10 ^ k"
  by (simp add: nat_power_eq)

lemma int_digits_big_int: "int_digits big_int = 4301"
  unfolding int_digits_def big_int_def nat_abs_power length_digits_power by simp

lemma digit_chars:
  "char_of (48::nat) = CHR ''0''" "char_of (49::nat) = CHR ''1''" "char_of (50::nat) = CHR ''2''"
  "char_of (51::nat) = CHR ''3''" "char_of (52::nat) = CHR ''4''" "char_of (53::nat) = CHR ''5''"
  by code_simp+

lemma str_int_4301: "str_int 4301 = ''4301''"
  by (simp add: str_int_def digits.simps[of 4301] digits.simps[of 430] digits.simps[of 43]
      digits.simps[of 4] digit_chars)

lemma str_int_404: "str_int 404 = ''404''"
  by (simp add: str_int_def digits.simps[of 404] digits.simps[of 40] digits.simps[of 4]
      digit_chars)

lemma str_int_502: "str_int 502 = ''502''"
  by (simp add: str_int_def digits.simps[of 502] digits.simps[of 50] digits.simps[of 5]
      digit_chars)

text \<open>
  Claim C1. Whatever entry point is used (\<open>_request\<close> or one of \<open>get\<close>, \<open>post\<close>, \<open>put\<close>,
  \<open>delete\<close>), when the transport answers with a response whose status code is 400, 401,
  403, 404 or any code from 500 to 599, the call raises one failure of the package, and
  its class is the one of the status: 400 \<open>ValidationError\<close>, 401 \<open>AuthenticationError\<close>,
  403 \<open>AuthorizationError\<close>, 404 \<open>NotFoundError\<close>, 5xx \<open>ServerError\<close>.
\<close>

theorem status_code_to_kind:
  assumes "(m, f) \<in> entry_points send self method"
    and "send (build_call self m endpoint kw) = Inr r"
    and "status_code r \<in> {400, 401, 403, 404} \<or> (500 \<le> status_code r \<and> status_code r < 600)"
  shows "\<exists>x. f endpoint kw = Inl (Api x) \<and>
           kind x = (if status_code r = 400 then ValidationError
                     else if status_code r = 401 then AuthenticationError
                     else if status_code r = 403 then AuthorizationError
                     else if status_code r = 404 then NotFoundError
                     else ServerError)"
proof -
  have range: "400 \<le> status_code r" "status_code r < 600"
    using assms(3) by auto
  have "f endpoint kw = receive (Inr r)"
    using entry_points_request[OF assms(1)] assms(2) by (simp add: request_def)
  then show ?thesis
    using assms(3) receive_error[OF range] handle_response_error[OF range] by auto
qed

theorem status_code_to_kind_witness:
  "(\<exists>x. get (answering r404) client0 ''/api/me'' no_kwargs = Inl (Api x) \<and>
        kind x = NotFoundError) \<and>
   (\<exists>x. post (answering r502) client0 ''/api/me'' no_kwargs = Inl (Api x) \<and>
        kind x = ServerError)"
  using status_code_to_kind[of "''GET''" "get (answering r404) client0" "answering r404"
      client0 "''GET''" "''/api/me''" no_kwargs r404]
    status_code_to_kind[of "''POST''" "post (answering r502) client0" "answering r502"
      client0 "''GET''" "''/api/me''" no_kwargs r502]
  by (simp add: entry_points_def answering_def r404_def r502_def)

section \<open>The outcome of a call\<close>

text \<open>
  Claim C2 says that every call ends with a decoded value or with a failure of the
  package, and that no other exception reaches the caller. The code breaks it on a 200
  response whose body is a well-formed document the decoder refuses: the \<open>RecursionError\<close>
  of 2000 nested arrays and the \<open>ValueError\<close> of an integer of 4301 digits are caught by
  no \<open>except\<close> clause of \<open>_handle_response\<close> and \<open>_request\<close>, and \<open>get\<close> raises them as
  they are. The inner \<open>try\<close> of the error branch guards the same \<open>response.json()\<close> with a
  bare \<open>except\<close>; the success path has no such guard.
\<close>

theorem raw_exception_reaches_caller:
  "get (answering r200_deep) client0 ''/api/me'' no_kwargs =
     Inl (Other ''RecursionError''
            (''maximum recursion depth exceeded while decoding '' @
             ''a JSON array from a unicode string'')) \<and>
   post (answering r200_big_int) client0 ''/api/fs/list'' no_kwargs =
     Inl (Other ''ValueError'' (digit_limit_msg big_int))"
proof -
  have "long_ints (JObject [(''code'', JInt 200), (''data'', JInt big_int)]) = [big_int]"
    by (simp add: int_digits_small int_digits_big_int)
  then show ?thesis
    using receive_success[of r200_deep] receive_success[of r200_big_int]
    by (simp add: get_def post_def request_def answering_def r200_deep_def r200_big_int_def)
qed

text \<open>
  A 2xx body that is not JSON at all does not escape: the \<open>JSONDecodeError\<close> of
  \<open>response.json()\<close> is a \<open>RequestException\<close> and the last \<open>except\<close> clause of \<open>_request\<close>
  turns it into a \<open>NetworkError\<close>.
\<close>

lemma malformed_body_is_network_error:
  "post (answering r200_bad) client0 ''/api/fs/list'' no_kwargs =
     Inl (Api \<lparr>kind = NetworkError,
               message = JString (msg_network @ ''Expecting value: line 1 column 1 (char 0)''),
               failure_status_code = None, failure_response = None\<rparr>)"
  using receive_success[of r200_bad]
  by (simp add: post_def request_def answering_def r200_bad_def)

text \<open>
  Claim C4 says that every 2xx response with a well-formed JSON body makes the call
  return the value of the body. It does not hold for a well-formed body the decoder
  refuses: with an integer of 4301 digits in a 200 response the call returns nothing and
  raises the decoder's \<open>ValueError\<close>.
\<close>

theorem success_returns_body_counterexample:
  "status_code r200_big_int = 200 \<and>
   well_formed (content r200_big_int) \<and>
   get (answering r200_big_int) client0 ''/api/me'' no_kwargs =
     Inl (Other ''ValueError''
            (''Exceeds the limit (4300 digits) for integer string conversion: '' @
             ''value has 4301 digits; use sys.set_int_max_str_digits() to increase the limit''))"
proof -
  have "long_ints (JObject [(''code'', JInt 200), (''data'', JInt big_int)]) = [big_int]"
    by (simp add: int_digits_small int_digits_big_int)
  moreover have "digit_limit_msg big_int =
      ''Exceeds the limit (4300 digits) for integer string conversion: '' @
      ''value has 4301 digits; use sys.set_int_max_str_digits() to increase the limit''"
    by (simp add: digit_limit_msg_def int_digits_big_int str_int_4301)
  ultimately show ?thesis
    using receive_success[of r200_big_int]
    by (simp add: get_def request_def answering_def r200_big_int_def)
qed

text \<open>
  Claim C4, amended. Whatever entry point is used, when the transport answers with a 2xx
  response whose body is a well-formed JSON document that the decoder accepts (none of
  its integers is longer than the digit limit, and the nesting is within the recursion
  limit), the call returns the value of the document itself.
\<close>

theorem success_returns_body:
  assumes "(m, f) \<in> entry_points send self method"
    and "send (build_call self m endpoint kw) = Inr r"
    and "200 \<le> status_code r" "status_code r < 300"
    and "content r = Document v" "long_ints v = []"
  shows "f endpoint kw = Inr v"
  using entry_points_request[OF assms(1)] assms(2-6) receive_success[of r]
  by (simp add: request_def)

theorem success_returns_body_witness:
  "get (answering r200) client0 ''/api/me'' no_kwargs =
     Inr (JObject [(''code'', JInt 200), (''message'', JString ''success''),
                   (''data'', JObject [(''id'', JInt 1)])])"
  using success_returns_body[of "''GET''" "get (answering r200) client0" "answering r200"
      client0 "''GET''" "''/api/me''" no_kwargs r200
      "JObject [(''code'', JInt 200), (''message'', JString ''success''),
                (''data'', JObject [(''id'', JInt 1)])]"]
  by (simp add: entry_points_def answering_def r200_def int_digits_small)



text \<open>
  Claim C3 says that every response with a status code outside 2xx, other than 400, 401,
  403, 404 and 5xx, makes the call raise the base class \<open>OpenListAPIError\<close>. It does not
  hold for 3xx: a 300 response with a JSON body is returned like a success, and a 304
  response with an empty body ends as a \<open>NetworkError\<close>.
\<close>

theorem other_status_counterexample:
  "status_code r300 = 300 \<and>
   get (answering r300) client0 ''/api/me'' no_kwargs = Inr (JObject [(''code'', JInt 300)]) \<and>
   status_code r304 = 304 \<and>
   get (answering r304) client0 ''/api/me'' no_kwargs =
     Inl (Api \<lparr>kind = NetworkError,
               message = JString (msg_network @ ''Expecting value: line 1 column 1 (char 0)''),
               failure_status_code = None, failure_response = None\<rparr>)"
  using receive_success[of r300] receive_success[of r304]
  by (simp add: get_def request_def answering_def r300_def r304_def int_digits_small)

text \<open>
  Claim C3, amended. Whatever entry point is used, a response with a status code from
  400 to 499 other than 400, 401, 403 and 404 makes the call raise the base class
  \<open>OpenListAPIError\<close>.
\<close>

theorem other_client_error_is_generic:
  assumes "(m, f) \<in> entry_points send self method"
    and "send (build_call self m endpoint kw) = Inr r"
    and "400 \<le> status_code r" "status_code r < 500"
    and "status_code r \<notin> {400, 401, 403, 404}"
  shows "\<exists>x. f endpoint kw = Inl (Api x) \<and> kind x = OpenListAPIError"
proof -
  have "f endpoint kw = receive (Inr r)"
    using entry_points_request[OF assms(1)] assms(2) by (simp add: request_def)
  then show ?thesis
    using assms(3-5) receive_error[of r] handle_response_error[of r] by simp
qed

theorem other_client_error_is_generic_witness:
  "\<exists>x. delete (answering r409) client0 ''/api/me'' no_kwargs = Inl (Api x) \<and>
       kind x = OpenListAPIError"
  using other_client_error_is_generic[of "''DELETE''" "delete (answering r409) client0"
      "answering r409" client0 "''GET''" "''/api/me''" no_kwargs r409]
  by (simp add: entry_points_def answering_def r409_def)

text \<open>
  Claim C7 says that every failure raised on a response outside 2xx carries the status
  code and the response, with a message taken from the body or from the status line. It
  does not hold for a 304 response with an empty body: the call raises a \<open>NetworkError\<close>
  with no status code and no response, whose message is the decoder's.
\<close>

theorem failure_attachments_counterexample:
  "status_code r304 = 304 \<and>
   put (answering r304) client0 ''/api/fs/put'' no_kwargs =
     Inl (Api \<lparr>kind = NetworkError,
               message = JString (msg_network @ ''Expecting value: line 1 column 1 (char 0)''),
               failure_status_code = None, failure_response = None\<rparr>)"
  using receive_success[of r304]
  by (simp add: put_def request_def answering_def r304_def)

text \<open>
  Claim C7, amended. Whatever entry point is used, a response with a status code from
  400 to 599 makes the call raise a failure that carries the status code and the
  response itself. Its message is the \<open>message\<close> entry of the body when
  \<open>response.json()\<close> returns an object that has one; when \<open>response.json()\<close> raises, or
  returns an object without a \<open>message\<close> key or something that is not an object, the
  message is the text of the \<open>HTTPError\<close> (status code, reason and URL).
\<close>

theorem failure_message_and_attachments:
  assumes "(m, f) \<in> entry_points send self method"
    and "send (build_call self m endpoint kw) = Inr r"
    and "400 \<le> status_code r" "status_code r < 600"
  shows "\<exists>x. f endpoint kw = Inl (Api x) \<and>
           failure_status_code x = Some (status_code r) \<and>
           failure_response x = Some r \<and>
           message x =
             (case response_json r of
                Inl e \<Rightarrow> JString (http_error_msg r)
              | Inr (JObject d) \<Rightarrow>
                  (case map_of d ''message'' of
                     Some v \<Rightarrow> v
                   | None \<Rightarrow> JString (http_error_msg r))
              | Inr _ \<Rightarrow> JString (http_error_msg r))"
proof -
  have "f endpoint kw = handle_response r"
    using entry_points_request[OF assms(1)] assms(2) receive_error[OF assms(3,4)]
    by (simp add: request_def)
  moreover have "error_message r (Requests HTTPError (http_error_msg r)) =
             (case response_json r of
                Inl e \<Rightarrow> JString (http_error_msg r)
              | Inr (JObject d) \<Rightarrow>
                  (case map_of d ''message'' of
                     Some v \<Rightarrow> v
                   | None \<Rightarrow> JString (http_error_msg r))
              | Inr _ \<Rightarrow> JString (http_error_msg r))"
    by (simp add: error_message_def split: sum.splits json.splits option.splits)
  ultimately show ?thesis
    using handle_response_error[OF assms(3,4)] by simp
qed

theorem failure_message_and_attachments_witness:
  "(\<exists>x. get (answering r404) client0 ''/api/me'' no_kwargs = Inl (Api x) \<and>
        failure_status_code x = Some 404 \<and> failure_response x = Some r404 \<and>
        message x = JString ''object not found'') \<and>
   (\<exists>x. get (answering r502) client0 ''/api/me'' no_kwargs = Inl (Api x) \<and>
        failure_status_code x = Some 502 \<and> failure_response x = Some r502 \<and>
        message x =
          JString ''502 Server Error: Bad Gateway for url: http://host:5244/api/me'')"
  using failure_message_and_attachments[of "''GET''" "get (answering r404) client0"
      "answering r404" client0 "''GET''" "''/api/me''" no_kwargs r404]
    failure_message_and_attachments[of "''GET''" "get (answering r502) client0"
      "answering r502" client0 "''GET''" "''/api/me''" no_kwargs r502]
  by (simp add: entry_points_def answering_def r404_def r502_def http_error_msg_def
      str_int_502 response_json_def int_digits_small)

section \<open>The token and the headers\<close>

lemma entry_points_receive:
  assumes "(m, f) \<in> entry_points send self method"
  shows "f endpoint kw = receive (send (build_call self m endpoint kw))"
  using entry_points_request[OF assms] by (simp add: request_def)

lemma build_call_authorization:
  "call_headers (build_call self m endpoint kw) ''Authorization'' =
     (case kw_headers kw of
        None \<Rightarrow> get_headers self ''Authorization''
      | Some h \<Rightarrow>
          (case h ''Authorization'' of
             None \<Rightarrow> get_headers self ''Authorization''
           | Some v \<Rightarrow> Some v))"
  by (simp add: build_call_def map_add_def split: option.splits)

lemma get_headers_authorization:
  "get_headers self ''Authorization'' =
     (case token self of None \<Rightarrow> None | Some t \<Rightarrow> if t \<noteq> [] then Some t else None)"
  by (simp add: get_headers_def split: option.splits)

text \<open>
  Claim C6 says that after \<open>set_token\<close> every call carries an \<open>Authorization\<close> header
  equal to the token. It does not hold for the empty token, for which no header is set,
  nor when the caller passes an \<open>Authorization\<close> header of its own, which replaces the
  client's.
\<close>

theorem token_sent_verbatim_counterexample:
  "call_headers (build_call (set_token client0 []) ''GET'' ''/api/me'' no_kwargs)
     ''Authorization'' = None \<and>
   call_headers (build_call (set_token client0 ''tok-1'') ''GET'' ''/api/me''
       (no_kwargs\<lparr>kw_headers := Some [''Authorization'' \<mapsto> ''Basic dXNlcg=='']\<rparr>))
     ''Authorization'' = Some ''Basic dXNlcg==''"
  by (simp add: build_call_def get_headers_def set_token_def client0_def BaseClient_def
      no_kwargs_def)

text \<open>
  Claim C6, amended. After \<open>set_token\<close> with a token that is not empty, every entry point
  hands the transport a call whose \<open>Authorization\<close> header is the token itself, with
  nothing added, as long as the caller's own headers have no \<open>Authorization\<close> entry.
\<close>

theorem token_sent_verbatim:
  assumes "(m, f) \<in> entry_points send (set_token self tok) method"
    and "tok \<noteq> []"
    and "case kw_headers kw of None \<Rightarrow> True | Some h \<Rightarrow> h ''Authorization'' = None"
  shows "f endpoint kw = receive (send (build_call (set_token self tok) m endpoint kw)) \<and>
         call_headers (build_call (set_token self tok) m endpoint kw) ''Authorization'' =
           Some tok"
  using entry_points_receive[OF assms(1)] assms(2,3)
  by (simp add: build_call_authorization get_headers_authorization set_token_def
      split: option.splits)

theorem token_sent_verbatim_witness:
  "call_headers (build_call (set_token client0 ''tok-1'') ''PUT'' ''/api/fs/put''
       (no_kwargs\<lparr>kw_headers := Some [''As-Task'' \<mapsto> ''true'']\<rparr>))
     ''Authorization'' = Some ''tok-1''"
  using token_sent_verbatim[of "''PUT''" "put (answering r200) (set_token client0 ''tok-1'')"
      "answering r200" client0 "''tok-1''" "''GET''"
      "no_kwargs\<lparr>kw_headers := Some [''As-Task'' \<mapsto> ''true'']\<rparr>" "''/api/fs/put''"]
  by (simp add: entry_points_def)

text \<open>
  Claim C10 says that with an empty or unset token no call carries an \<open>Authorization\<close>
  header at all. It does not hold when the caller passes an \<open>Authorization\<close> header of
  its own: the client adds none, and the caller's is sent.
\<close>

theorem empty_token_not_sent_counterexample:
  "token (set_token client0 []) = Some [] \<and>
   call_headers (build_call (set_token client0 []) ''GET'' ''/api/me''
       (no_kwargs\<lparr>kw_headers := Some [''Authorization'' \<mapsto> ''Basic dXNlcg=='']\<rparr>))
     ''Authorization'' = Some ''Basic dXNlcg==''"
  by (simp add: build_call_def get_headers_def set_token_def client0_def BaseClient_def
      no_kwargs_def)

text \<open>
  Claim C10, amended. When the token is \<open>None\<close> or the empty string, \<open>_get_headers\<close>
  sets no \<open>Authorization\<close> header, and every entry point hands the transport a call that
  has none as long as the caller's own headers have no \<open>Authorization\<close> entry; the whole
  call is the one a client with no token would issue, so the empty string is treated as
  an unset token.
\<close>

theorem empty_token_not_sent:
  assumes "(m, f) \<in> entry_points send self method"
    and "token self = None \<or> token self = Some []"
    and "case kw_headers kw of None \<Rightarrow> True | Some h \<Rightarrow> h ''Authorization'' = None"
  shows "get_headers self ''Authorization'' = None \<and>
         f endpoint kw = receive (send (build_call self m endpoint kw)) \<and>
         call_headers (build_call self m endpoint kw) ''Authorization'' = None \<and>
         build_call self m endpoint kw = build_call (self\<lparr>token := None\<rparr>) m endpoint kw"
proof -
  have h: "get_headers self = get_headers (self\<lparr>token := None\<rparr>)"
    using assms(2) by (auto simp: get_headers_def)
  have "get_headers self ''Authorization'' = None"
    using assms(2) by (auto simp: get_headers_authorization)
  moreover have "call_headers (build_call self m endpoint kw) ''Authorization'' = None"
    using calculation assms(3) by (auto simp: build_call_authorization split: option.splits)
  moreover have "build_call self m endpoint kw = build_call (self\<lparr>token := None\<rparr>) m endpoint kw"
    by (simp add: build_call_def h split: option.splits)
  ultimately show ?thesis
    using entry_points_receive[OF assms(1)] by simp
qed

theorem empty_token_not_sent_witness:
  "call_headers (build_call (set_token client0 []) ''POST'' ''/api/fs/list'' no_kwargs)
     ''Authorization'' = None \<and>
   call_headers (build_call client0 ''POST'' ''/api/fs/list'' no_kwargs)
     ''Authorization'' = None"
  using empty_token_not_sent[of "''POST''" "post (answering r200) (set_token client0 [])"
      "answering r200" "set_token client0 []" "''GET''" no_kwargs "''/api/fs/list''"]
    empty_token_not_sent[of "''POST''" "post (answering r200) client0"
      "answering r200" client0 "''GET''" no_kwargs "''/api/fs/list''"]
  by (simp add: entry_points_def set_token_def client0_def BaseClient_def no_kwargs_def)

section \<open>The uploads\<close>

lemma always_safe_unreserved: "c \<in> set ALWAYS_SAFE \<longleftrightarrow> unreserved c"
proof (cases c)
  case (Char b0 b1 b2 b3 b4 b5 b6 b7)
  show ?thesis
    unfolding Char ALWAYS_SAFE_def unreserved_def
    by (cases b0; cases b1; cases b2; cases b3; cases b4; cases b5; cases b6; cases b7) simp_all
qed

lemma rstrip_Nil: "rstrip cs s = [] \<longleftrightarrow> set s \<subseteq> set cs"
  by (auto simp: rstrip_def)

lemma concat_singletons: "concat (map (\<lambda>c. [c]) s) = s"
  by (induction s) simp_all

lemma quote_percent_encode: "quote s [] = percent_encode s"
proof -
  have q: "quoter [] c = (if unreserved c then [c]
      else [CHR ''%'', hex_upper (of_char c div 16), hex_upper (of_char c mod 16)])" for c
    by (simp add: quoter_def always_safe_unreserved)
  have "quoter [] = (\<lambda>c. if unreserved c then [c]
      else [CHR ''%'', hex_upper (of_char c div 16), hex_upper (of_char c mod 16)])"
    by (rule ext) (simp add: q)
  then have enc: "concat (map (quoter []) s) = percent_encode s"
    by (simp add: percent_encode_def)
  show ?thesis
  proof (cases "set s \<subseteq> set ALWAYS_SAFE")
    case True
    then have "map (quoter []) s = map (\<lambda>c. [c]) s"
      by (auto simp: quoter_def)
    then have "concat (map (quoter []) s) = s"
      using concat_singletons[of s] by (simp only:)
    then have "percent_encode s = s"
      using enc by simp
    then show ?thesis
      using True by (simp add: quote_def quote_from_bytes_def ascii_only_def rstrip_Nil)
  next
    case False
    then have "s \<noteq> []" by auto
    then show ?thesis
      using False enc by (simp add: quote_def quote_from_bytes_def ascii_only_def rstrip_Nil)
  qed
qed

lemma hex_upper_table: "list_all (\<lambda>n. unreserved (hex_upper n)) [0..<16]"
  by (simp add: upt_rec hex_upper_def unreserved_def)

lemma hex_upper_unreserved: "n < 16 \<Longrightarrow> unreserved (hex_upper n)"
  using hex_upper_table by (simp add: list_all_iff)

lemma of_char_div_16: "(of_char c :: nat) div 16 < 16"
proof -
  have "(of_char c :: nat) < 256" by simp
  then show ?thesis by arith
qed

lemma percent_encode_chars:
  "c \<in> set (percent_encode s) \<Longrightarrow> unreserved c \<or> c = CHR ''%''"
  by (auto simp: percent_encode_def hex_upper_unreserved of_char_div_16 split: if_splits)

lemma lower_str_bool: "lower (str_bool t) = (if t then ''true'' else ''false'')"
  by (cases t) (simp_all, code_simp+)

lemma upload_call_headers:
  assumes "h ''File-Path'' = Some a" "h ''As-Task'' = Some b"
  shows "call_headers (build_call self m e (kw\<lparr>kw_headers := Some h\<rparr>)) ''File-Path'' = Some a"
    and "call_headers (build_call self m e (kw\<lparr>kw_headers := Some h\<rparr>)) ''As-Task'' = Some b"
  using assms by (simp_all add: build_call_def map_add_def)

text \<open>
  Claim C9. For every target path and either value of the flag, \<open>form_upload\<close> and
  \<open>stream_upload\<close> each issue one PUT call, the same whatever the transport, whose
  \<open>File-Path\<close> header is the percent-encoding of the path and whose \<open>As-Task\<close> header is
  the flag as \<open>true\<close> or \<open>false\<close>. The encoding exempts nothing: what \<open>quote\<close> returns
  with an empty \<open>safe\<close> is the RFC 3986 encoding, and every character of it is unreserved
  or the percent sign, so that no slash is left.
\<close>

theorem upload_headers:
  "(\<exists>c. (\<forall>send UploadResponse.
           form_upload send UploadResponse self file_path file as_task =
             (case receive (send c) of Inl e \<Rightarrow> Inl e | Inr d \<Rightarrow> UploadResponse d)) \<and>
        call_method c = ''PUT'' \<and>
        call_url c = base_url self @ ''/api/fs/form'' \<and>
        call_headers c ''File-Path'' = Some (percent_encode file_path) \<and>
        call_headers c ''As-Task'' = Some (if as_task then ''true'' else ''false'')) \<and>
   (\<exists>c. (\<forall>send UploadResponse.
           stream_upload send UploadResponse self file_path file as_task =
             (case receive (send c) of Inl e \<Rightarrow> Inl e | Inr d \<Rightarrow> UploadResponse d)) \<and>
        call_method c = ''PUT'' \<and>
        call_url c = base_url self @ ''/api/fs/put'' \<and>
        call_headers c ''File-Path'' = Some (percent_encode file_path) \<and>
        call_headers c ''As-Task'' = Some (if as_task then ''true'' else ''false'')) \<and>
   quote file_path [] = percent_encode file_path \<and>
   (\<forall>ch \<in> set (percent_encode file_path). unreserved ch \<or> ch = CHR ''%'')"
proof (intro conjI)
  let ?h = "[''File-Path'' \<mapsto> quote file_path [], ''As-Task'' \<mapsto> lower (str_bool as_task)]"
  let ?c = "build_call self ''PUT'' ''/api/fs/form''
      (no_kwargs\<lparr>kw_files := Some [''file'' \<mapsto> file], kw_headers := Some ?h\<rparr>)"
  have "\<forall>send UploadResponse.
           form_upload send UploadResponse self file_path file as_task =
             (case receive (send ?c) of Inl e \<Rightarrow> Inl e | Inr d \<Rightarrow> UploadResponse d)"
    by (simp add: form_upload_def put_def request_def)
  moreover have "call_method ?c = ''PUT''" "call_url ?c = base_url self @ ''/api/fs/form''"
    by (simp_all add: build_call_def)
  moreover have "call_headers ?c ''File-Path'' = Some (percent_encode file_path)"
    "call_headers ?c ''As-Task'' = Some (if as_task then ''true'' else ''false'')"
    by (simp_all add: upload_call_headers quote_percent_encode lower_str_bool)
  ultimately show "\<exists>c. (\<forall>send UploadResponse.
           form_upload send UploadResponse self file_path file as_task =
             (case receive (send c) of Inl e \<Rightarrow> Inl e | Inr d \<Rightarrow> UploadResponse d)) \<and>
        call_method c = ''PUT'' \<and>
        call_url c = base_url self @ ''/api/fs/form'' \<and>
        call_headers c ''File-Path'' = Some (percent_encode file_path) \<and>
        call_headers c ''As-Task'' = Some (if as_task then ''true'' else ''false'')"
    by blast
next
  let ?h = "[''File-Path'' \<mapsto> quote file_path [], ''As-Task'' \<mapsto> lower (str_bool as_task),
      ''Content-Type'' \<mapsto> ''application/octet-stream'']"
  let ?c = "build_call self ''PUT'' ''/api/fs/put''
      (no_kwargs\<lparr>kw_data := Some file, kw_headers := Some ?h\<rparr>)"
  have "\<forall>send UploadResponse.
           stream_upload send UploadResponse self file_path file as_task =
             (case receive (send ?c) of Inl e \<Rightarrow> Inl e | Inr d \<Rightarrow> UploadResponse d)"
    by (simp add: stream_upload_def put_def request_def)
  moreover have "call_method ?c = ''PUT''" "call_url ?c = base_url self @ ''/api/fs/put''"
    by (simp_all add: build_call_def)
  moreover have "call_headers ?c ''File-Path'' = Some (percent_encode file_path)"
    "call_headers ?c ''As-Task'' = Some (if as_task then ''true'' else ''false'')"
    by (simp_all add: upload_call_headers quote_percent_encode lower_str_bool)
  ultimately show "\<exists>c. (\<forall>send UploadResponse.
           stream_upload send UploadResponse self file_path file as_task =
             (case receive (send c) of Inl e \<Rightarrow> Inl e | Inr d \<Rightarrow> UploadResponse d)) \<and>
        call_method c = ''PUT'' \<and>
        call_url c = base_url self @ ''/api/fs/put'' \<and>
        call_headers c ''File-Path'' = Some (percent_encode file_path) \<and>
        call_headers c ''As-Task'' = Some (if as_task then ''true'' else ''false'')"
    by blast
next
  show "quote file_path [] = percent_encode file_path"
    by (rule quote_percent_encode)
next
  show "\<forall>ch \<in> set (percent_encode file_path). unreserved ch \<or> ch = CHR ''%''"
    using percent_encode_chars by blast
qed

lemma percent_encode_example:
  "percent_encode ''/documents/my file.pdf'' = ''%2Fdocuments%2Fmy%20file.pdf''"
  by code_simp

lemma receive_echo_upload_headers:
  "receive (echo_upload_headers c) =
     Inr (JObject (map (\<lambda>k. (k, case call_headers c k of None \<Rightarrow> JNull | Some v \<Rightarrow> JString v))
                       [''File-Path'', ''As-Task'']))"
  using receive_success[of "projr (echo_upload_headers c)"]
  by (simp add: echo_upload_headers_def split: option.splits)

theorem upload_headers_witness:
  "form_upload echo_upload_headers Inr client0 ''/documents/my file.pdf'' ''%PDF'' True =
     Inr (JObject [(''File-Path'', JString ''%2Fdocuments%2Fmy%20file.pdf''),
                   (''As-Task'', JString ''true'')]) \<and>
   stream_upload echo_upload_headers Inr client0 ''/documents/my file.pdf'' ''%PDF'' False =
     Inr (JObject [(''File-Path'', JString ''%2Fdocuments%2Fmy%20file.pdf''),
                   (''As-Task'', JString ''false'')])"
proof
  obtain c where c: "\<forall>send U. form_upload send U client0 ''/documents/my file.pdf'' ''%PDF'' True =
        (case receive (send c) of Inl e \<Rightarrow> Inl e | Inr d \<Rightarrow> (U d :: exn + json))"
      "call_headers c ''File-Path'' = Some (percent_encode ''/documents/my file.pdf'')"
      "call_headers c ''As-Task'' = Some ''true''"
    using upload_headers[of client0 "''/documents/my file.pdf''" "''%PDF''" True] by auto
  have "form_upload echo_upload_headers Inr client0 ''/documents/my file.pdf'' ''%PDF'' True =
      (case receive (echo_upload_headers c) of Inl e \<Rightarrow> Inl e | Inr d \<Rightarrow> Inr d)"
    using c(1) by blast
  then show "form_upload echo_upload_headers Inr client0 ''/documents/my file.pdf'' ''%PDF'' True =
     Inr (JObject [(''File-Path'', JString ''%2Fdocuments%2Fmy%20file.pdf''),
                   (''As-Task'', JString ''true'')])"
    by (simp add: receive_echo_upload_headers c(2,3) percent_encode_example)
next
  obtain c where c: "\<forall>send U. stream_upload send U client0 ''/documents/my file.pdf'' ''%PDF'' False =
        (case receive (send c) of Inl e \<Rightarrow> Inl e | Inr d \<Rightarrow> (U d :: exn + json))"
      "call_headers c ''File-Path'' = Some (percent_encode ''/documents/my file.pdf'')"
      "call_headers c ''As-Task'' = Some ''false''"
    using upload_headers[of client0 "''/documents/my file.pdf''" "''%PDF''" False] by auto
  have "stream_upload echo_upload_headers Inr client0 ''/documents/my file.pdf'' ''%PDF'' False =
      (case receive (echo_upload_headers c) of Inl e \<Rightarrow> Inl e | Inr d \<Rightarrow> Inr d)"
    using c(1) by blast
  then show "stream_upload echo_upload_headers Inr client0 ''/documents/my file.pdf'' ''%PDF'' False =
     Inr (JObject [(''File-Path'', JString ''%2Fdocuments%2Fmy%20file.pdf''),
                   (''As-Task'', JString ''false'')])"
    by (simp add: receive_echo_upload_headers c(2,3) percent_encode_example)
qed

section \<open>The hashed login\<close>

lemma hex_lower_table: "list_all (\<lambda>n. hex_lower n \<in> set ''0123456789abcdef'') [0..<16]"
  by (simp add: upt_rec hex_lower_def)

lemma hex_lower_digit: "n < 16 \<Longrightarrow> hex_lower n \<in> set ''0123456789abcdef''"
  using hex_lower_table by (simp add: list_all_iff del: set_simps list.set)

lemma hexdigest_chars:
  assumes "c \<in> set (hexdigest d)"
  shows "c \<in> set ''0123456789abcdef''"
proof -
  obtain x where "c = hex_lower (of_char x div 16) \<or> c = hex_lower (of_char x mod 16)"
    using assms by (auto simp: hexdigest_def)
  moreover have "(of_char x :: nat) mod 16 < 16" by simp
  ultimately show ?thesis
    using hex_lower_digit of_char_div_16[of x] by blast
qed

lemma length_hexdigest: "length (hexdigest d) = 2 * length d"
  by (induction d) (simp_all add: hexdigest_def)

lemma length_sha_round: "length (sha_round kw s) = length s"
  by (induction kw s rule: sha_round.induct) (simp_all add: Let_def)

lemma length_rounds: "length (rounds kws s) = length s"
  by (induction kws arbitrary: s) (simp_all add: length_sha_round)

lemma length_compress: "length (compress block hs) = length hs"
  by (simp add: compress_def length_rounds)

lemma length_fold_compress: "length (fold compress bs hs) = length hs"
  by (induction bs arbitrary: hs) (simp_all add: length_compress)

lemma length_concat_be_bytes: "length (concat (map be_bytes ws)) = 4 * length ws"
  by (induction ws) (simp_all add: be_bytes_def)

lemma length_sha256: "length (sha256 m) = 32"
  by (simp add: sha256_def length_concat_be_bytes length_fold_compress sha_H0_def)

lemma replicate_numeral_unfold: "replicate (numeral k) x = x # replicate (pred_numeral k) x"
  by (simp add: numeral_eq_Suc)

lemma sample_pad:
  "sha_pad sample_message =
    [112, 97, 115, 115, 119, 111, 114, 100, 49, 50, 51, 45, 104, 116, 116, 112,
     115, 58, 47, 47, 103, 105, 116, 104, 117, 98, 46, 99, 111, 109, 47, 97,
     108, 105, 115, 116, 45, 111, 114, 103, 47, 97, 108, 105, 115, 116, 128, 0,
     0, 0, 0, 0, 0, 0, 0, 0, 0, 0, 0, 0, 0, 0, 1, 112]"
  by (simp add: sha_pad_def sample_message_def replicate_numeral_unfold upt_rec)

lemma sample_blocks:
  "blocks [112, 97, 115, 115, 119, 111, 114, 100, 49, 50, 51, 45, 104, 116, 116, 112,
     115, 58, 47, 47, 103, 105, 116, 104, 117, 98, 46, 99, 111, 109, 47, 97,
     108, 105, 115, 116, 45, 111, 114, 103, 47, 97, 108, 105, 115, 116, 128, 0,
     0, 0, 0, 0, 0, 0, 0, 0, 0, 0, 0, 0, 0, 0, 1, 112] =
   [[112, 97, 115, 115, 119, 111, 114, 100, 49, 50, 51, 45, 104, 116, 116, 112,
     115, 58, 47, 47, 103, 105, 116, 104, 117, 98, 46, 99, 111, 109, 47, 97,
     108, 105, 115, 116, 45, 111, 114, 103, 47, 97, 108, 105, 115, 116, 128, 0,
     0, 0, 0, 0, 0, 0, 0, 0, 0, 0, 0, 0, 0, 0, 1, 112]]"
  by (simp add: blocks_def)

lemma sample_words:
  "be_words [112, 97, 115, 115, 119, 111, 114, 100, 49, 50, 51, 45, 104, 116, 116, 112,
     115, 58, 47, 47, 103, 105, 116, 104, 117, 98, 46, 99, 111, 109, 47, 97,
     108, 105, 115, 116, 45, 111, 114, 103, 47, 97, 108, 105, 115, 116, 128, 0,
     0, 0, 0, 0, 0, 0, 0, 0, 0, 0, 0, 0, 0, 0, 1, 112] =
    [1885434739, 2003792484, 825373485, 1752462448, 1933193007, 1734964328,
     1969368675, 1869426529, 1818850164, 762278503, 794913897, 1937014784,
     0, 0, 0, 368]"
  by simp

lemma sample_expand:
  "expand 48 [1885434739, 2003792484, 825373485, 1752462448, 1933193007, 1734964328,
     1969368675, 1869426529, 1818850164, 762278503, 794913897, 1937014784,
     0, 0, 0, 368] =
    [3094025037, 2012630300, 2169151908, 854567547, 4181366546, 3418756592,
     329433435, 2849355614, 877707160, 2832313685, 3641410894, 1339649067,
     2113866549, 2938501543, 4011140620, 3234629221, 1049569415, 370351853,
     1562890187, 1018100798, 1140824545, 1618544570, 3658118678, 2761686511,
     2508328994, 4011675426, 1683572524, 1236349785, 2394282739, 2529560231,
     3686185448, 3716043683, 3640726288, 3437990348, 395855964, 3000105261,
     1091000987, 2873133466, 842593422, 2802173229, 3543997457, 1717092622,
     1012691832, 2213489425, 3459194030, 2659488280, 3115021750, 175801198]"
  by code_simp

lemma sample_schedule:
  "schedule [112, 97, 115, 115, 119, 111, 114, 100, 49, 50, 51, 45, 104, 116, 116, 112,
     115, 58, 47, 47, 103, 105, 116, 104, 117, 98, 46, 99, 111, 109, 47, 97,
     108, 105, 115, 116, 45, 111, 114, 103, 47, 97, 108, 105, 115, 116, 128, 0,
     0, 0, 0, 0, 0, 0, 0, 0, 0, 0, 0, 0, 0, 0, 1, 112] =
    [1885434739, 2003792484, 825373485, 1752462448, 1933193007, 1734964328,
     1969368675, 1869426529, 1818850164, 762278503, 794913897, 1937014784,
     0, 0, 0, 368, 3094025037, 2012630300,
     2169151908, 854567547, 4181366546, 3418756592, 329433435, 2849355614,
     877707160, 2832313685, 3641410894, 1339649067, 2113866549, 2938501543,
     4011140620, 3234629221, 1049569415, 370351853, 1562890187, 1018100798,
     1140824545, 1618544570, 3658118678, 2761686511, 2508328994, 4011675426,
     1683572524, 1236349785, 2394282739, 2529560231, 3686185448, 3716043683,
     3640726288, 3437990348, 395855964, 3000105261, 1091000987, 2873133466,
     842593422, 2802173229, 3543997457, 1717092622, 1012691832, 2213489425,
     3459194030, 2659488280, 3115021750, 175801198]"
  by (simp add: schedule_def sample_words sample_expand)

lemma sample_rounds:
  "rounds (zip sha_K [1885434739, 2003792484, 825373485, 1752462448, 1933193007, 1734964328,
     1969368675, 1869426529, 1818850164, 762278503, 794913897, 1937014784,
     0, 0, 0, 368, 3094025037, 2012630300,
     2169151908, 854567547, 4181366546, 3418756592, 329433435, 2849355614,
     877707160, 2832313685, 3641410894, 1339649067, 2113866549, 2938501543,
     4011140620, 3234629221, 1049569415, 370351853, 1562890187, 1018100798,
     1140824545, 1618544570, 3658118678, 2761686511, 2508328994, 4011675426,
     1683572524, 1236349785, 2394282739, 2529560231, 3686185448, 3716043683,
     3640726288, 3437990348, 395855964, 3000105261, 1091000987, 2873133466,
     842593422, 2802173229, 3543997457, 1717092622, 1012691832, 2213489425,
     3459194030, 2659488280, 3115021750, 175801198]) sha_H0 =
    [2589405979, 1629442275, 2224357297, 2092402134, 986692313, 899102457,
     2954160540, 3201225829]"
  by code_simp

lemma sample_compress:
  "compress [112, 97, 115, 115, 119, 111, 114, 100, 49, 50, 51, 45, 104, 116, 116, 112,
     115, 58, 47, 47, 103, 105, 116, 104, 117, 98, 46, 99, 111, 109, 47, 97,
     108, 105, 115, 116, 45, 111, 114, 103, 47, 97, 108, 105, 115, 116, 128, 0,
     0, 0, 0, 0, 0, 0, 0, 0, 0, 0, 0, 0, 0, 0, 1, 112] sha_H0 =
    [73472386, 478609256, 3238261539, 570915600, 2346585432, 3499925381,
     3482895175, 447717758]"
  by (simp add: compress_def sample_schedule sample_rounds) (simp add: sha_H0_def)

lemma sample_digest:
  "sha256 sample_message = map char_of ([4, 97, 25, 130, 28, 134, 255, 104, 193, 3, 243, 35, 34, 7, 123, 16,
     139, 222, 13, 88, 208, 156, 159, 133, 207, 152, 195, 71, 26, 175, 161, 126] :: nat list)"
  by (simp add: sha256_def sample_pad sample_blocks sample_compress be_bytes_def upt_rec)

lemma sample_hexdigest:
  "hexdigest (sha256 sample_message) =
     ''046119821c86ff68c103f32322077b108bde0d58d09c9f85cf98c3471aafa17e''"
  by (simp add: sample_digest hexdigest_def hex_lower_def)

lemma receive_echo_login_payload:
  "receive (echo_login_payload c) =
     Inr (case kw_json (call_kwargs c) of
            Some (JObject d) \<Rightarrow>
              JObject (map (\<lambda>k. (k, case map_of d k of
                                        Some (JString t) \<Rightarrow> JString t
                                      | _ \<Rightarrow> JNull))
                           [''username'', ''password''])
          | _ \<Rightarrow> JNull)"
  using receive_success[of "projr (echo_login_payload c)"]
  by (simp add: echo_login_payload_def split: option.splits json.splits)

text \<open>
  Claim C8. For every user name, password and one-time code, \<open>login_hash\<close> issues one POST
  to \<open>/api/auth/login/hash\<close> whose JSON payload has the user name and, as password, the
  hexadecimal SHA-256 digest of the password followed by
  \<open>-https://github.com/alist-org/alist\<close>: 64 characters, all lower-case hexadecimal
  digits. The payload is the same for every client state, and the call is the same
  whatever the transport. For \<open>admin\<close> and \<open>password123\<close> the password sent is
  \<open>0461...a17e\<close>, the digest \<open>hashlib\<close> computes.
\<close>

theorem login_hash_password:
  "\<exists>payload.
     map_of payload ''username'' = Some (JString username) \<and>
     map_of payload ''password'' =
       Some (JString (hexdigest (sha256 (password @ ''-https://github.com/alist-org/alist'')))) \<and>
     (\<forall>self. \<exists>c.
        call_method c = ''POST'' \<and>
        call_url c = base_url self @ ''/api/auth/login/hash'' \<and>
        kw_json (call_kwargs c) = Some (JObject payload) \<and>
        (\<forall>send LoginResponse.
           login_hash send LoginResponse self username password otp_code =
             (case receive (send c) of Inl e \<Rightarrow> Inl e | Inr d \<Rightarrow> LoginResponse d))) \<and>
     length (hexdigest (sha256 (password @ ''-https://github.com/alist-org/alist''))) = 64 \<and>
     (\<forall>ch \<in> set (hexdigest (sha256 (password @ ''-https://github.com/alist-org/alist''))).
        ch \<in> set ''0123456789abcdef'')"
proof -
  let ?h = "hexdigest (sha256 (password @ ''-https://github.com/alist-org/alist''))"
  let ?p = "[(''username'', JString username), (''password'', JString ?h)]"
  let ?payload = "case otp_code of
                    None \<Rightarrow> ?p
                  | Some c \<Rightarrow> if c \<noteq> [] then ?p @ [(''otp_code'', JString c)] else ?p"
  have "map_of ?payload ''username'' = Some (JString username)"
    "map_of ?payload ''password'' = Some (JString ?h)"
    by (simp_all split: option.splits)
  moreover have "\<exists>c. call_method c = ''POST'' \<and>
        call_url c = base_url self @ ''/api/auth/login/hash'' \<and>
        kw_json (call_kwargs c) = Some (JObject ?payload) \<and>
        (\<forall>send LoginResponse.
           login_hash send LoginResponse self username password otp_code =
             (case receive (send c) of Inl e \<Rightarrow> Inl e | Inr d \<Rightarrow> LoginResponse d))" for self
  proof (intro exI conjI)
    let ?c = "build_call self ''POST'' ''/api/auth/login/hash''
        (no_kwargs\<lparr>kw_json := Some (JObject ?payload)\<rparr>)"
    show "call_method ?c = ''POST''" "call_url ?c = base_url self @ ''/api/auth/login/hash''"
      "kw_json (call_kwargs ?c) = Some (JObject ?payload)"
      by (simp_all add: build_call_def)
    show "\<forall>send LoginResponse.
           login_hash send LoginResponse self username password otp_code =
             (case receive (send ?c) of Inl e \<Rightarrow> Inl e | Inr d \<Rightarrow> LoginResponse d)"
      by (simp add: login_hash_def post_def request_def Let_def)
  qed
  moreover have "length ?h = 64"
    by (simp add: length_hexdigest length_sha256)
  moreover have "\<forall>ch \<in> set ?h. ch \<in> set ''0123456789abcdef''"
    using hexdigest_chars by blast
  ultimately show ?thesis by blast
qed

theorem login_hash_password_witness:
  "login_hash echo_login_payload Inr client0 ''admin'' ''password123'' None =
     Inr (JObject [(''username'', JString ''admin''),
                   (''password'',
                    JString ''046119821c86ff68c103f32322077b108bde0d58d09c9f85cf98c3471aafa17e'')])"
proof -
  obtain payload c where p: "map_of payload ''username'' = Some (JString ''admin'')"
      "map_of payload ''password'' =
         Some (JString (hexdigest (sha256 (''password123'' @ ''-https://github.com/alist-org/alist''))))"
    and c: "kw_json (call_kwargs c) = Some (JObject payload)"
      "\<forall>send L. login_hash send L client0 ''admin'' ''password123'' None =
         (case receive (send c) of Inl e \<Rightarrow> Inl e | Inr d \<Rightarrow> (L d :: exn + json))"
    using login_hash_password[of "''admin''" "''password123''" None] by blast
  have "''password123'' @ ''-https://github.com/alist-org/alist'' = sample_message"
    by (simp add: sample_message_def)
  then have h: "map_of payload ''password'' =
      Some (JString ''046119821c86ff68c103f32322077b108bde0d58d09c9f85cf98c3471aafa17e'')"
    using p(2) sample_hexdigest by (simp only:)
  have "login_hash echo_login_payload Inr client0 ''admin'' ''password123'' None =
      (case receive (echo_login_payload c) of Inl e \<Rightarrow> Inl e | Inr d \<Rightarrow> Inr d)"
    using c(2) by blast
  then show ?thesis
    by (simp add: receive_echo_login_payload c(1) p(1) h)
qed

end
